theory Spec2Isabelle
  imports Complex_Main
begin

section \<open>Data of the math preview (providers/preview/mathpreview.ts)\<close>

text \<open>
  A \<^verbatim>\<open>vscode.TextDocument\<close> (or a \<^verbatim>\<open>TextDocumentLike\<close>) is a text buffer; the class
  \<^verbatim>\<open>MathPreview\<close> only hands documents on to its collaborators, so the buffer's text
  stands for the document. A \<^verbatim>\<open>vscode.Position\<close> is a line and a character, a
  \<^verbatim>\<open>vscode.Range\<close> a pair of positions. A JavaScript \<^verbatim>\<open>number\<close> that is only passed
  through (the preview scale) is a real number.
\<close>

type_synonym document = string

record position =
  line :: nat
  character :: nat

type_synonym vs_range = "position \<times> position"

text \<open>\<^verbatim>\<open>TexMathEnv\<close>: the fields that \<^verbatim>\<open>mathpreview.ts\<close> reads.\<close>

record tex_math_env =
  texString :: string
  tex_range :: vs_range
  envname :: string

text \<open>
  \<^verbatim>\<open>ReferenceEntry\<close>: the fields that \<^verbatim>\<open>mathpreview.ts\<close> reads. \<^verbatim>\<open>prevIndex\<close> is
  optional (\<^verbatim>\<open>refData.prevIndex\<close> is tested for truthiness; an object is always truthy);
  \<^verbatim>\<open>file_path\<close> is the field \<^verbatim>\<open>file\<close>.
\<close>

record prev_index =
  refNumber :: string
  pageNumber :: nat

record reference_entry =
  file_path :: string
  position :: position
  label :: string
  documentation :: string
  prevIndex :: "prev_index option"

text \<open>The options object \<^verbatim>\<open>{scale, color}\<close> handed to \<^verbatim>\<open>MathJaxPool.typeset\<close>.\<close>

record typeset_opts =
  opts_scale :: real
  opts_color :: string

text \<open>
  A \<^verbatim>\<open>vscode.Hover\<close>: a list of contents (a plain string or a
  \<^verbatim>\<open>vscode.MarkdownString\<close> with its \<^verbatim>\<open>isTrusted\<close> flag) and an optional range.
\<close>

datatype marked = PlainString string | MarkdownString string bool

record hover =
  contents :: "marked list"
  hover_range :: "vs_range option"

text \<open>
  What a rejected promise or a thrown exception carries: the diagnostic of the
  typesetting engine, or the path of a file that could not be loaded.
\<close>

datatype error = RenderError string | ResourceUnavailable string

text \<open>A \<^verbatim>\<open>vscode.CancellationToken\<close>: whether cancellation has been requested.\<close>

type_synonym ctoken = bool

text \<open>The result object of \<^verbatim>\<open>generateSVG\<close>.\<close>

record svg_result =
  svgDataUrl :: string
  newCommands :: string

section \<open>Collaborators\<close>

text \<open>
  The classes \<^verbatim>\<open>MathJaxPool\<close>, \<^verbatim>\<open>CursorRenderer\<close>, \<^verbatim>\<open>MathPreviewUtils\<close>,
  \<^verbatim>\<open>NewCommandFinder\<close> and \<^verbatim>\<open>TeXMathEnvFinder\<close>, the helper \<^verbatim>\<open>utils.svgToDataUrl\<close>,
  the extension's configuration and the host's document API are used by
  \<^verbatim>\<open>mathpreview.ts\<close> but defined elsewhere: they are parameters of the model. The
  typesetting engine is the one collaborator whose failure the source handles
  (\<^verbatim>\<open>try\<close>/\<^verbatim>\<open>catch\<close> around \<^verbatim>\<open>typeset\<close>), so its result is an error or an image.
  \<^verbatim>\<open>host_document\<close> and \<^verbatim>\<open>readFile\<close> are the host's open documents and the file-read
  capability used when a document is loaded by path.
\<close>

record env =
  hover_preview_scale :: real
  hover_ref_enabled :: bool
  hover_ref_number_enabled :: bool
  cursorRenderer_renderCursor :: "document \<Rightarrow> vs_range \<Rightarrow> string \<Rightarrow> string"
  mathjaxify :: "string \<Rightarrow> string \<Rightarrow> string"
  stripTeX :: "string \<Rightarrow> string"
  addDummyCodeBlock :: "string \<Rightarrow> string"
  svgToDataUrl :: "string \<Rightarrow> string"
  mj_typeset :: "string \<Rightarrow> typeset_opts \<Rightarrow> error + string"
  newCommandFinder_findProjectNewCommand :: "ctoken option \<Rightarrow> string"
  finder_findHoverOnTex :: "document \<Rightarrow> position \<Rightarrow> tex_math_env option"
  finder_findHoverOnRef ::
    "document \<Rightarrow> position \<Rightarrow> reference_entry \<Rightarrow> string \<Rightarrow> tex_math_env option"
  finder_findMathEnvIncludingPosition :: "document \<Rightarrow> position \<Rightarrow> tex_math_env option"
  getWordRangeAtPosition :: "document \<Rightarrow> position \<Rightarrow> vs_range option"
  synctexLink :: "nat \<Rightarrow> string \<Rightarrow> string"
  host_document :: "string \<Rightarrow> document option"
  readFile :: "string \<Rightarrow> document option"

section \<open>State\<close>

text \<open>
  The calls that reach a collaborator with an effect are recorded, oldest first, so that
  "is invoked" and "is not invoked" are statements about the trace.
\<close>

datatype event =
    RenderCursor document vs_range string
  | ScanNewCommand "ctoken option"
  | Typeset string typeset_opts
  | LogOnRejected error
  | AddLogMessage string
  | LoadFile string

text \<open>
  The one mutable field of \<^verbatim>\<open>MathPreview\<close> is \<^verbatim>\<open>color\<close>. \<^verbatim>\<open>trace\<close> is the record of
  collaborator calls, \<^verbatim>\<open>documents\<close> the projected documents kept by path.
\<close>

record state =
  color :: string
  trace :: "event list"
  documents :: "string \<rightharpoonup> document"

definition emit :: "event \<Rightarrow> state \<Rightarrow> state" where
  "emit e st = st\<lparr>trace := trace st @ [e]\<rparr>"

text \<open>The field initialiser \<^verbatim>\<open>private color: string = '#000000'\<close> and the constructor.\<close>

definition constructor :: state where
  "constructor = \<lparr>color = ''#000000'', trace = [], documents = Map.empty\<rparr>"

section \<open>Theme colour\<close>

text \<open>
  \<^verbatim>\<open>getColor\<close>; its argument is what \<^verbatim>\<open>getCurrentThemeLightness()\<close> answers at the
  moment of the call.
\<close>

definition getColor :: "string \<Rightarrow> state \<Rightarrow> state" where
  "getColor lightness st =
     (if lightness = ''light'' then st\<lparr>color := ''#000000''\<rparr>
      else st\<lparr>color := ''#ffffff''\<rparr>)"

text \<open>
  The constructor registers \<^verbatim>\<open>() => this.getColor()\<close> with
  \<^verbatim>\<open>vscode.workspace.onDidChangeConfiguration\<close>.
\<close>

definition onDidChangeConfiguration :: "string \<Rightarrow> state \<Rightarrow> state" where
  "onDidChangeConfiguration lightness st = getColor lightness st"

text \<open>
  While an \<^verbatim>\<open>async\<close> method is suspended at an \<^verbatim>\<open>await\<close>, the host may deliver
  notifications; \<^verbatim>\<open>awaiting ns\<close> runs the registered handler once for each of them,
  \<^verbatim>\<open>ns\<close> listing the theme lightness current at each delivery.
\<close>

definition awaiting :: "string list \<Rightarrow> state \<Rightarrow> state" where
  "awaiting ns st = foldl (\<lambda>s n. onDidChangeConfiguration n s) st ns"

section \<open>Components of the preview that are not among the sources\<close>

text \<open>
  Modelled from the spec: \<^verbatim>\<open>HoverPreviewOnRefProvider\<close>
  (\<^verbatim>\<open>mathpreviewlib/hoverpreviewonref\<close>) is not among the sources; only its two calls
  \<^verbatim>\<open>renderSvgOnRef(tex, newCommand, refData, color)\<close> and
  \<^verbatim>\<open>provideHoverPreviewOnRef(tex, newCommands, refData, color)\<close> are. The spec (4.5)
  says of the reference flow, once the region is found and the macro preamble fetched:
  it "skips cursor annotation (no cursor concept applies to a remote reference), and
  submits to the Pool with the current color snapshot"; a rejected input is a
  \<^verbatim>\<open>RenderError\<close> "surfaced to the end caller" (7). So the region's raw text is
  prepared and stripped like in \<^verbatim>\<open>generateSVG\<close>, prefixed with the preamble and
  typeset with the scale of the configuration and the colour passed in; \<^verbatim>\<open>ns\<close> are the
  notifications delivered while the engine is awaited.
\<close>

definition provider_renderSvgOnRef ::
  "env \<Rightarrow> string list \<Rightarrow> tex_math_env \<Rightarrow> string \<Rightarrow> reference_entry \<Rightarrow> string \<Rightarrow> state
     \<Rightarrow> (error + string) \<times> state" where
  "provider_renderSvgOnRef env ns tex newCommand refData col st =
     (let scale = hover_preview_scale env;
          s = mathjaxify env (texString tex) (envname tex);
          typesetArg = newCommand @ stripTeX env s;
          typesetOpts = \<lparr>opts_scale = scale, opts_color = col\<rparr>;
          st1 = awaiting ns (emit (Typeset typesetArg typesetOpts) st)
      in case mj_typeset env typesetArg typesetOpts of
           Inr xml \<Rightarrow> (Inr (svgToDataUrl env xml), st1)
         | Inl e \<Rightarrow> (Inl e, st1))"

text \<open>
  Modelled from the spec: \<^verbatim>\<open>provideHoverPreviewOnRef\<close> of the same absent class. The
  hover of the reference flow shows the rendering of the referenced region (4.5, 4.7):
  its content is the image returned by \<^verbatim>\<open>provider_renderSvgOnRef\<close>, its range the
  region's.
\<close>

definition provider_provideHoverPreviewOnRef ::
  "env \<Rightarrow> string list \<Rightarrow> tex_math_env \<Rightarrow> string \<Rightarrow> reference_entry \<Rightarrow> string \<Rightarrow> state
     \<Rightarrow> (error + hover) \<times> state" where
  "provider_provideHoverPreviewOnRef env ns tex newCommand refData col st =
     (case provider_renderSvgOnRef env ns tex newCommand refData col st of
        (Inr md, st1) \<Rightarrow>
          (Inr \<lparr>contents = [MarkdownString (addDummyCodeBlock env (''![equation]('' @ md @ '')'')) False],
                hover_range = Some (tex_range tex)\<rparr>, st1)
      | (Inl e, st1) \<Rightarrow> (Inl e, st1))"

text \<open>
  Modelled from the spec: \<^verbatim>\<open>TextDocumentLike.load\<close>
  (\<^verbatim>\<open>mathpreviewlib/textdocumentlike\<close>) is not among the sources; only its call in
  \<^verbatim>\<open>findHoverOnRef\<close> is. The spec (4.5, 3, 9): the owning document of a file is "live
  if already open in the host, else a projected load -- cached by file path", the cache
  being "an explicit keyed cache (path -> Document) with a simple load once, reuse
  policy" without eviction. A file that cannot be read is the failure
  \<^verbatim>\<open>ResourceUnavailable\<close> of the spec (7): "a referenced file could not be read or a
  document could not be loaded"; the load then has no document to return and fails with
  it. \<^verbatim>\<open>LoadFile\<close> records that a projected document was built from the file's contents.
\<close>

definition TextDocumentLike_load :: "env \<Rightarrow> string \<Rightarrow> state \<Rightarrow> (error + document) \<times> state" where
  "TextDocumentLike_load env path st =
     (case host_document env path of
        Some d \<Rightarrow> (Inr d, st)
      | None \<Rightarrow>
          (case documents st path of
             Some d \<Rightarrow> (Inr d, st)
           | None \<Rightarrow>
               (case readFile env path of
                  Some d \<Rightarrow> (Inr d, emit (LoadFile path) (st\<lparr>documents := (documents st)(path \<mapsto> d)\<rparr>))
                | None \<Rightarrow> (Inl (ResourceUnavailable path), st))))"

text \<open>
  Modelled from the spec: \<^verbatim>\<open>TeXMathEnvFinder.findHoverOnRef\<close>
  (\<^verbatim>\<open>mathpreviewlib/texmathenvfinder\<close>) is not among the sources; only its calls are, and
  in general it is a parameter (\<^verbatim>\<open>finder_findHoverOnRef\<close>). \<^verbatim>\<open>provideHoverOnRef\<close> hands
  it the document of the hover and the reference entry, so the file of the target is
  resolved inside it. The spec (4.5): the reference flow "resolves the owning Document
  for target.file", "calls MathEnvironmentLocator.findByLabel(doc, target.label)", and
  "cross-file resolution failures (unreadable file) are reported the same as no region
  found -- never fatal to the hover". \<^verbatim>\<open>resolve\<close> is the resolution of a path,
  \<^verbatim>\<open>findByLabel\<close> the locator (4.1), which answers a region or none.
\<close>

definition texMathEnvFinder_findHoverOnRef ::
  "(string \<Rightarrow> error + document) \<Rightarrow> (document \<Rightarrow> string \<Rightarrow> tex_math_env option)
     \<Rightarrow> document \<Rightarrow> position \<Rightarrow> reference_entry \<Rightarrow> string \<Rightarrow> tex_math_env option" where
  "texMathEnvFinder_findHoverOnRef resolve findByLabel doc pos refData token =
     (case resolve (file_path refData) of
        Inr d \<Rightarrow> findByLabel d (label refData)
      | Inl e \<Rightarrow> None)"

section \<open>The operations of \<^verbatim>\<open>MathPreview\<close>\<close>

text \<open>
  Every method takes the collaborators and the state, and returns its result with the
  new state. An \<^verbatim>\<open>async\<close> method takes, for each \<^verbatim>\<open>await\<close> it may reach, the
  notifications delivered during that suspension. A method that can reject returns
  \<^verbatim>\<open>Inl\<close> of the error.
\<close>

record interleaving =
  during_scan :: "string list"
  during_typeset :: "string list"

definition findProjectNewCommand :: "env \<Rightarrow> ctoken \<Rightarrow> state \<Rightarrow> string \<times> state" where
  "findProjectNewCommand env ctoken st =
     (newCommandFinder_findProjectNewCommand env (Some ctoken), emit (ScanNewCommand (Some ctoken)) st)"

definition provideHoverOnTex ::
  "env \<Rightarrow> string list \<Rightarrow> document \<Rightarrow> tex_math_env \<Rightarrow> string \<Rightarrow> state \<Rightarrow> (error + hover) \<times> state" where
  "provideHoverOnTex env ns doc tex newCommand st =
     (let scale = hover_preview_scale env;
          s = cursorRenderer_renderCursor env doc (tex_range tex) (color st);
          st1 = emit (RenderCursor doc (tex_range tex) (color st)) st;
          s = mathjaxify env s (envname tex);
          typesetArg = newCommand @ stripTeX env s;
          typesetOpts = \<lparr>opts_scale = scale, opts_color = color st1\<rparr>;
          st2 = awaiting ns (emit (Typeset typesetArg typesetOpts) st1)
      in case mj_typeset env typesetArg typesetOpts of
           Inr xml \<Rightarrow>
             (let md = svgToDataUrl env xml
              in (Inr \<lparr>contents = [MarkdownString (addDummyCodeBlock env (''![equation]('' @ md @ '')'')) False],
                       hover_range = Some (tex_range tex)\<rparr>, st2))
         | Inl e \<Rightarrow>
             (Inl e,
              emit (AddLogMessage (''Error when MathJax is rendering '' @ typesetArg))
                (emit (LogOnRejected e) st2)))"

definition refNumberMessage :: "reference_entry \<Rightarrow> string option" where
  "refNumberMessage refData =
     (case prevIndex refData of
        Some p \<Rightarrow>
          (let refNum = refNumber p;
               refMessage = ''numbered '' @ refNum @ '' at last compilation''
           in Some refMessage)
      | None \<Rightarrow> None)"

text \<open>
  \<^verbatim>\<open>provideHoverOnRef\<close>. \<^verbatim>\<open>tex\<close> is the region when \<^verbatim>\<open>hover.ref.enabled\<close> is on and the
  finder answers one; in every other case control falls through to the text hover.
\<close>

definition provideHoverOnRef ::
  "env \<Rightarrow> interleaving \<Rightarrow> document \<Rightarrow> position \<Rightarrow> reference_entry \<Rightarrow> string \<Rightarrow> ctoken \<Rightarrow> state
     \<Rightarrow> (error + hover) \<times> state" where
  "provideHoverOnRef env il doc pos refData token ctoken st =
     (let ln = line (position refData);
          link = synctexLink env ln (file_path refData);
          mdLink = MarkdownString (''[View on pdf]('' @ link @ '')'') True;
          tex = (if hover_ref_enabled env then finder_findHoverOnRef env doc pos refData token else None)
      in case tex of
           Some t \<Rightarrow>
             (let (newCommands, st1) = findProjectNewCommand env ctoken st;
                  st2 = awaiting (during_scan il) st1
              in provider_provideHoverPreviewOnRef env (during_typeset il) t newCommands refData (color st2) st2)
         | None \<Rightarrow>
             (let md = ''```latex\<newline>'' @ documentation refData @ ''\<newline>```\<newline>'';
                  refRange = getWordRangeAtPosition env doc pos
              in case refNumberMessage refData of
                   Some msg \<Rightarrow>
                     (if hover_ref_number_enabled env
                      then (Inr \<lparr>contents = [PlainString md, PlainString msg, mdLink], hover_range = refRange\<rparr>, st)
                      else (Inr \<lparr>contents = [PlainString md, mdLink], hover_range = refRange\<rparr>, st))
                 | None \<Rightarrow> (Inr \<lparr>contents = [PlainString md, mdLink], hover_range = refRange\<rparr>, st)))"

definition generateSVG ::
  "env \<Rightarrow> interleaving \<Rightarrow> tex_math_env \<Rightarrow> string option \<Rightarrow> state \<Rightarrow> (error + svg_result) \<times> state" where
  "generateSVG env il tex newCommandsArg st =
     (let (newCommands, st1) =
            (case newCommandsArg of
               Some nc \<Rightarrow> (nc, st)
             | None \<Rightarrow>
                 (newCommandFinder_findProjectNewCommand env None,
                  awaiting (during_scan il) (emit (ScanNewCommand None) st)));
          scale = hover_preview_scale env;
          s = mathjaxify env (texString tex) (envname tex);
          typesetArg = newCommands @ stripTeX env s;
          typesetOpts = \<lparr>opts_scale = scale, opts_color = color st1\<rparr>;
          st2 = awaiting (during_typeset il) (emit (Typeset typesetArg typesetOpts) st1)
      in case mj_typeset env typesetArg typesetOpts of
           Inr xml \<Rightarrow> (Inr \<lparr>svgDataUrl = svgToDataUrl env xml, newCommands = newCommands\<rparr>, st2)
         | Inl e \<Rightarrow> (Inl e, st2))"

definition renderCursor :: "env \<Rightarrow> document \<Rightarrow> vs_range \<Rightarrow> state \<Rightarrow> string \<times> state" where
  "renderCursor env doc rng st =
     (cursorRenderer_renderCursor env doc rng (color st), emit (RenderCursor doc rng (color st)) st)"

definition findHoverOnTex :: "env \<Rightarrow> document \<Rightarrow> position \<Rightarrow> tex_math_env option" where
  "findHoverOnTex env doc pos = finder_findHoverOnTex env doc pos"

text \<open>
  \<^verbatim>\<open>findHoverOnRef\<close> hands the document that \<^verbatim>\<open>TextDocumentLike.load\<close> returns to the
  finder, whatever it is. There is no \<^verbatim>\<open>try\<close> around the load: when the load fails,
  the method fails with the same error and the finder is not reached.
\<close>

definition findHoverOnRef ::
  "env \<Rightarrow> reference_entry \<Rightarrow> string \<Rightarrow> state \<Rightarrow> (error + tex_math_env option) \<times> state" where
  "findHoverOnRef env refData token st =
     (case TextDocumentLike_load env (file_path refData) st of
        (Inr doc, st1) \<Rightarrow>
          (let pos = position refData
           in (Inr (finder_findHoverOnRef env doc pos refData token), st1))
      | (Inl e, st1) \<Rightarrow> (Inl e, st1))"

definition renderSvgOnRef ::
  "env \<Rightarrow> interleaving \<Rightarrow> tex_math_env \<Rightarrow> reference_entry \<Rightarrow> ctoken \<Rightarrow> state
     \<Rightarrow> (error + string) \<times> state" where
  "renderSvgOnRef env il tex refData ctoken st =
     (let (newCommand, st1) = findProjectNewCommand env ctoken st;
          st2 = awaiting (during_scan il) st1
      in provider_renderSvgOnRef env (during_typeset il) tex newCommand refData (color st2) st2)"

definition findMathEnvIncludingPosition :: "env \<Rightarrow> document \<Rightarrow> position \<Rightarrow> tex_math_env option" where
  "findMathEnvIncludingPosition env doc pos = finder_findMathEnvIncludingPosition env doc pos"

section \<open>Runs of the preview\<close>

text \<open>
  One step is one call of a method that takes the state, with any arguments and any
  notifications delivered while it is suspended. \<^verbatim>\<open>findHoverOnTex\<close> and
  \<^verbatim>\<open>findMathEnvIncludingPosition\<close> neither read nor write the state.
\<close>

inductive step :: "env \<Rightarrow> state \<Rightarrow> state \<Rightarrow> bool" for env :: env where
  step_getColor: "step env st (getColor lightness st)"
| step_findProjectNewCommand: "step env st (snd (findProjectNewCommand env ctoken st))"
| step_provideHoverOnTex: "step env st (snd (provideHoverOnTex env ns doc tex newCommand st))"
| step_provideHoverOnRef: "step env st (snd (provideHoverOnRef env il doc pos refData token ctoken st))"
| step_generateSVG: "step env st (snd (generateSVG env il tex newCommandsArg st))"
| step_renderCursor: "step env st (snd (renderCursor env doc rng st))"
| step_findHoverOnRef: "step env st (snd (findHoverOnRef env refData token st))"
| step_renderSvgOnRef: "step env st (snd (renderSvgOnRef env il tex refData ctoken st))"

inductive steps :: "env \<Rightarrow> state \<Rightarrow> state \<Rightarrow> bool" for env :: env where
  steps_refl: "steps env st st"
| steps_step: "steps env st st' \<Longrightarrow> step env st' st'' \<Longrightarrow> steps env st st''"

definition reachable :: "env \<Rightarrow> state \<Rightarrow> bool" where
  "reachable env st = steps env constructor st"

section \<open>Reading the trace\<close>

text \<open>The requests submitted to the typesetting engine, oldest first.\<close>

fun submitted :: "event list \<Rightarrow> (string \<times> typeset_opts) list" where
  "submitted [] = []"
| "submitted (Typeset a opts # es) = (a, opts) # submitted es"
| "submitted (e # es) = submitted es"

text \<open>The number of calls of the cursor renderer.\<close>

fun cursor_calls :: "event list \<Rightarrow> nat" where
  "cursor_calls [] = 0"
| "cursor_calls (RenderCursor d r c # es) = Suc (cursor_calls es)"
| "cursor_calls (e # es) = cursor_calls es"

text \<open>The number of project-wide macro scans.\<close>

fun scans :: "event list \<Rightarrow> nat" where
  "scans [] = 0"
| "scans (ScanNewCommand c # es) = Suc (scans es)"
| "scans (e # es) = scans es"

text \<open>The number of projected documents built from the file at a path.\<close>

fun loads :: "string \<Rightarrow> event list \<Rightarrow> nat" where
  "loads p [] = 0"
| "loads p (LoadFile q # es) = (if p = q then Suc (loads p es) else loads p es)"
| "loads p (e # es) = loads p es"

text \<open>The colours handed to the cursor renderer and to the typesetting engine, in the order of the calls.\<close>

fun colors_read :: "event list \<Rightarrow> string list" where
  "colors_read [] = []"
| "colors_read (RenderCursor d r c # es) = c # colors_read es"
| "colors_read (Typeset a opts # es) = opts_color opts # colors_read es"
| "colors_read (e # es) = colors_read es"

text \<open>
  Between two states, the document kept for a path and the number of projected
  documents built for it are unchanged, or the path was neither open in the host nor
  kept, the file was readable, and exactly one projected document was built and kept.
\<close>

definition loaded_once :: "env \<Rightarrow> string \<Rightarrow> state \<Rightarrow> state \<Rightarrow> bool" where
  "loaded_once env p st st' =
     ((documents st' p = documents st p \<and> loads p (trace st') = loads p (trace st))
      \<or> (host_document env p = None \<and> documents st p = None \<and> readFile env p \<noteq> None
          \<and> documents st' p = readFile env p \<and> loads p (trace st') = Suc (loads p (trace st))))"

section \<open>A concrete configuration\<close>

text \<open>
  Collaborators simple enough to evaluate: the cursor renderer appends a rule in the
  given colour, the engine rejects the empty input and an input that starts with a
  question mark and wraps any other in a tag, the finder knows the label
  \<^verbatim>\<open>eq:1\<close> only, one
  file is readable and none is open in the host.
\<close>

definition demo_env :: env where
  "demo_env =
     \<lparr>hover_preview_scale = 1,
      hover_ref_enabled = True,
      hover_ref_number_enabled = False,
      cursorRenderer_renderCursor = (\<lambda>d r c. d @ ''|'' @ c),
      mathjaxify = (\<lambda>s e. s),
      stripTeX = (\<lambda>s. s),
      addDummyCodeBlock = (\<lambda>s. s),
      svgToDataUrl = (\<lambda>x. x),
      mj_typeset =
        (\<lambda>a opts. case a of
                     [] \<Rightarrow> Inl (RenderError ''empty'')
                   | c # cs \<Rightarrow> if c = CHR ''?'' then Inl (RenderError ''?'') else Inr (''<svg>'' @ a)),
      newCommandFinder_findProjectNewCommand = (\<lambda>c. ''P''),
      finder_findHoverOnTex = (\<lambda>d p. None),
      finder_findHoverOnRef =
        (\<lambda>d p r t. if t = ''eq:1''
                    then Some \<lparr>texString = d, tex_range = (p, p), envname = ''equation''\<rparr>
                    else None),
      finder_findMathEnvIncludingPosition = (\<lambda>d p. None),
      getWordRangeAtPosition = (\<lambda>d p. None),
      synctexLink = (\<lambda>n f. f),
      host_document = (\<lambda>p. None),
      readFile = (\<lambda>p. if p = ''a.tex'' then Some ''x'' else None)\<rparr>"

definition demo_tex :: tex_math_env where
  "demo_tex = \<lparr>texString = ''x'', tex_range = (\<lparr>line = 0, character = 0\<rparr>, \<lparr>line = 0, character = 1\<rparr>), envname = ''$''\<rparr>"

definition demo_ref :: reference_entry where
  "demo_ref =
     \<lparr>file_path = ''a.tex'', position = \<lparr>line = 3, character = 0\<rparr>, label = ''eq:1'',
      documentation = ''x'', prevIndex = Some \<lparr>refNumber = ''2'', pageNumber = 1\<rparr>\<rparr>"

section \<open>Basic facts\<close>

lemma emit_simps [simp]:
  "color (emit e st) = color st"
  "trace (emit e st) = trace st @ [e]"
  "documents (emit e st) = documents st"
  by (simp_all add: emit_def)

lemma getColor_simps [simp]:
  "trace (getColor n st) = trace st"
  "documents (getColor n st) = documents st"
  by (simp_all add: getColor_def)

lemma awaiting_Nil [simp]: "awaiting [] st = st"
  by (simp add: awaiting_def)

lemma awaiting_snoc: "awaiting (ns @ [n]) st = getColor n (awaiting ns st)"
  by (simp add: awaiting_def onDidChangeConfiguration_def)

lemma awaiting_append: "awaiting (ns @ ms) st = awaiting ms (awaiting ns st)"
  by (simp add: awaiting_def)

lemma awaiting_frame [simp]:
  "trace (awaiting ns st) = trace st"
  "documents (awaiting ns st) = documents st"
  by (induction ns rule: rev_induct) (simp_all add: awaiting_snoc)

lemma color_awaiting:
  "color (awaiting ns st) =
     (if ns = [] then color st else if last ns = ''light'' then ''#000000'' else ''#ffffff'')"
  by (induction ns rule: rev_induct) (simp_all add: awaiting_snoc getColor_def)

lemma color_awaiting_emit [simp]: "color (awaiting ns (emit e st)) = color (awaiting ns st)"
  by (simp add: color_awaiting)

lemma submitted_append [simp]: "submitted (es @ fs) = submitted es @ submitted fs"
  by (induction es rule: submitted.induct) simp_all

lemma cursor_calls_append [simp]: "cursor_calls (es @ fs) = cursor_calls es + cursor_calls fs"
  by (induction es rule: cursor_calls.induct) simp_all

lemma scans_append [simp]: "scans (es @ fs) = scans es + scans fs"
  by (induction es rule: scans.induct) simp_all

lemma loads_append [simp]: "loads p (es @ fs) = loads p es + loads p fs"
  by (induction p es rule: loads.induct) simp_all

section \<open>The state after each operation\<close>

lemma provider_renderSvgOnRef_state:
  "snd (provider_renderSvgOnRef env ns tex nc r col st) =
     awaiting ns (emit (Typeset (nc @ stripTeX env (mathjaxify env (texString tex) (envname tex)))
                          \<lparr>opts_scale = hover_preview_scale env, opts_color = col\<rparr>) st)"
  by (simp add: provider_renderSvgOnRef_def Let_def split: sum.splits)

lemma provider_provideHoverPreviewOnRef_state:
  "snd (provider_provideHoverPreviewOnRef env ns tex nc r col st) =
     snd (provider_renderSvgOnRef env ns tex nc r col st)"
  by (simp add: provider_provideHoverPreviewOnRef_def split: prod.splits sum.splits)

lemma findProjectNewCommand_state:
  "snd (findProjectNewCommand env c st) = emit (ScanNewCommand (Some c)) st"
  by (simp add: findProjectNewCommand_def)

lemma provideHoverOnTex_trace:
  "trace (snd (provideHoverOnTex env ns doc tex nc st)) =
     trace st @
     [RenderCursor doc (tex_range tex) (color st),
      Typeset (nc @ stripTeX env (mathjaxify env (cursorRenderer_renderCursor env doc (tex_range tex) (color st)) (envname tex)))
        \<lparr>opts_scale = hover_preview_scale env, opts_color = color st\<rparr>] @
     (case mj_typeset env
             (nc @ stripTeX env (mathjaxify env (cursorRenderer_renderCursor env doc (tex_range tex) (color st)) (envname tex)))
             \<lparr>opts_scale = hover_preview_scale env, opts_color = color st\<rparr> of
        Inl e \<Rightarrow>
          [LogOnRejected e,
           AddLogMessage (''Error when MathJax is rendering '' @ nc @ stripTeX env (mathjaxify env (cursorRenderer_renderCursor env doc (tex_range tex) (color st)) (envname tex)))]
      | Inr xml \<Rightarrow> [])"
  by (simp add: provideHoverOnTex_def Let_def split: sum.splits)

lemma provideHoverOnTex_color:
  "color (snd (provideHoverOnTex env ns doc tex nc st)) = color (awaiting ns st)"
  by (simp add: provideHoverOnTex_def Let_def split: sum.splits)

lemma provideHoverOnTex_documents:
  "documents (snd (provideHoverOnTex env ns doc tex nc st)) = documents st"
  by (simp add: provideHoverOnTex_def Let_def split: sum.splits)

lemma generateSVG_state:
  "snd (generateSVG env il tex arg st) =
     (case arg of
        Some nc \<Rightarrow>
          awaiting (during_typeset il)
            (emit (Typeset (nc @ stripTeX env (mathjaxify env (texString tex) (envname tex)))
                     \<lparr>opts_scale = hover_preview_scale env, opts_color = color st\<rparr>) st)
      | None \<Rightarrow>
          awaiting (during_typeset il)
            (emit (Typeset (newCommandFinder_findProjectNewCommand env None @ stripTeX env (mathjaxify env (texString tex) (envname tex)))
                     \<lparr>opts_scale = hover_preview_scale env, opts_color = color (awaiting (during_scan il) st)\<rparr>)
               (awaiting (during_scan il) (emit (ScanNewCommand None) st))))"
  by (simp add: generateSVG_def Let_def split: sum.splits option.splits)

lemma renderSvgOnRef_state:
  "snd (renderSvgOnRef env il tex r c st) =
     awaiting (during_typeset il)
       (emit (Typeset (newCommandFinder_findProjectNewCommand env (Some c) @ stripTeX env (mathjaxify env (texString tex) (envname tex)))
                \<lparr>opts_scale = hover_preview_scale env, opts_color = color (awaiting (during_scan il) st)\<rparr>)
          (awaiting (during_scan il) (emit (ScanNewCommand (Some c)) st)))"
  by (simp add: renderSvgOnRef_def findProjectNewCommand_def provider_renderSvgOnRef_state Let_def)

lemma provideHoverOnRef_state:
  "snd (provideHoverOnRef env il doc pos r tok c st) =
     (case (if hover_ref_enabled env then finder_findHoverOnRef env doc pos r tok else None) of
        Some tex \<Rightarrow> snd (renderSvgOnRef env il tex r c st)
      | None \<Rightarrow> st)"
  by (simp add: provideHoverOnRef_def renderSvgOnRef_def findProjectNewCommand_def
      provider_provideHoverPreviewOnRef_state refNumberMessage_def Let_def split: option.splits)

lemma renderCursor_state:
  "snd (renderCursor env doc rng st) = emit (RenderCursor doc rng (color st)) st"
  by (simp add: renderCursor_def)

lemma load_state:
  "snd (TextDocumentLike_load env p st) =
     (if host_document env p = None \<and> documents st p = None \<and> readFile env p \<noteq> None
      then emit (LoadFile p) (st\<lparr>documents := (documents st)(p \<mapsto> the (readFile env p))\<rparr>)
      else st)"
  by (auto simp add: TextDocumentLike_load_def split: option.splits)

lemma findHoverOnRef_state:
  "snd (findHoverOnRef env r tok st) = snd (TextDocumentLike_load env (file_path r) st)"
  by (simp add: findHoverOnRef_def Let_def split: prod.splits sum.splits)

section \<open>Colour, cache and trace along a run\<close>

lemma colors_read_append [simp]: "colors_read (es @ fs) = colors_read es @ colors_read fs"
  by (induction es rule: colors_read.induct) simp_all

lemma step_color:
  assumes "step env st st'"
  shows "color st' = color st \<or> color st' = ''#000000'' \<or> color st' = ''#ffffff''"
  using assms
proof cases
  case (step_getColor lightness)
  then show ?thesis by (simp add: getColor_def)
next
  case (step_findProjectNewCommand ctoken)
  then show ?thesis by (simp add: findProjectNewCommand_state)
next
  case (step_provideHoverOnTex ns doc tex newCommand)
  then show ?thesis by (simp add: provideHoverOnTex_color color_awaiting)
next
  case (step_provideHoverOnRef il doc pos refData token ctoken)
  then show ?thesis
    by (simp add: provideHoverOnRef_state renderSvgOnRef_state color_awaiting split: option.splits)
next
  case (step_generateSVG il tex newCommandsArg)
  then show ?thesis by (simp add: generateSVG_state color_awaiting split: option.splits)
next
  case (step_renderCursor doc rng)
  then show ?thesis by (simp add: renderCursor_state)
next
  case (step_findHoverOnRef refData token)
  then show ?thesis by (simp add: findHoverOnRef_state load_state)
next
  case (step_renderSvgOnRef il tex refData ctoken)
  then show ?thesis by (simp add: renderSvgOnRef_state color_awaiting)
qed

lemma steps_color:
  assumes "steps env st st'"
    and "color st = ''#000000'' \<or> color st = ''#ffffff''"
  shows "color st' = ''#000000'' \<or> color st' = ''#ffffff''"
  using assms
proof (induction rule: steps.induct)
  case (steps_refl st)
  then show ?case .
next
  case (steps_step st st' st'')
  from steps_step.IH [OF steps_step.prems] step_color [OF steps_step.hyps(2)]
  show ?case by auto
qed

lemma color_generateSVG:
  "color (snd (generateSVG env il tex arg st)) =
     color (awaiting ((case arg of Some nc \<Rightarrow> [] | None \<Rightarrow> during_scan il) @ during_typeset il) st)"
proof (cases arg)
  case None
  then show ?thesis
    by (simp add: generateSVG_state awaiting_append color_awaiting)
next
  case (Some nc)
  then show ?thesis
    by (simp add: generateSVG_state)
qed

lemma color_renderSvgOnRef:
  "color (snd (renderSvgOnRef env il tex refData ctoken st)) =
     color (awaiting (during_scan il @ during_typeset il) st)"
  by (simp add: renderSvgOnRef_state awaiting_append color_awaiting)

lemma color_provideHoverOnRef:
  "color (snd (provideHoverOnRef env il doc pos refData token ctoken st)) =
     (case (if hover_ref_enabled env then finder_findHoverOnRef env doc pos refData token else None) of
        Some t \<Rightarrow> color (awaiting (during_scan il @ during_typeset il) st)
      | None \<Rightarrow> color st)"
  by (simp add: provideHoverOnRef_state color_renderSvgOnRef split: option.splits)

lemma color_findHoverOnRef: "color (snd (findHoverOnRef env refData token st)) = color st"
  by (simp add: findHoverOnRef_state load_state)

lemma colors_read_provideHoverOnTex:
  "colors_read (trace (snd (provideHoverOnTex env ns doc tex newCommand st))) =
     colors_read (trace st) @ [color st, color st]"
  by (simp add: provideHoverOnTex_trace split: sum.splits)

lemma colors_read_generateSVG:
  "colors_read (trace (snd (generateSVG env il tex arg st))) =
     colors_read (trace st) @
     [color (case arg of Some nc \<Rightarrow> st | None \<Rightarrow> awaiting (during_scan il) st)]"
  by (cases arg) (simp_all add: generateSVG_state)

lemma colors_read_renderSvgOnRef:
  "colors_read (trace (snd (renderSvgOnRef env il tex refData ctoken st))) =
     colors_read (trace st) @ [color (awaiting (during_scan il) st)]"
  by (simp add: renderSvgOnRef_state)

lemma colors_read_provideHoverOnRef:
  "colors_read (trace (snd (provideHoverOnRef env il doc pos refData token ctoken st))) =
     colors_read (trace st) @
     (case (if hover_ref_enabled env then finder_findHoverOnRef env doc pos refData token else None) of
        Some t \<Rightarrow> [color (awaiting (during_scan il) st)]
      | None \<Rightarrow> [])"
  by (simp add: provideHoverOnRef_state colors_read_renderSvgOnRef split: option.splits)

lemma load_result:
  "fst (TextDocumentLike_load env p st) =
     (case host_document env p of
        Some d \<Rightarrow> Inr d
      | None \<Rightarrow>
          (case documents st p of
             Some d \<Rightarrow> Inr d
           | None \<Rightarrow> (case readFile env p of Some d \<Rightarrow> Inr d | None \<Rightarrow> Inl (ResourceUnavailable p))))"
  by (simp add: TextDocumentLike_load_def split: option.splits)

lemma load_loads:
  "loads p (trace (snd (TextDocumentLike_load env q st))) =
     (if p = q \<and> host_document env q = None \<and> documents st q = None \<and> readFile env q \<noteq> None
      then Suc (loads p (trace st)) else loads p (trace st))"
  by (simp add: load_state)

lemma load_documents:
  "documents (snd (TextDocumentLike_load env q st)) p =
     (if p = q \<and> host_document env q = None \<and> documents st q = None
      then readFile env q else documents st p)"
  by (auto simp add: load_state)

lemma load_loaded_once: "loaded_once env p st (snd (TextDocumentLike_load env q st))"
  by (auto simp add: loaded_once_def load_documents load_loads)

lemma loaded_once_refl: "loaded_once env p st st"
  by (simp add: loaded_once_def)

lemma loaded_once_same:
  "documents st' = documents st \<Longrightarrow> loads p (trace st') = loads p (trace st)
     \<Longrightarrow> loaded_once env p st st'"
  by (simp add: loaded_once_def)

lemma loaded_once_trans:
  assumes "loaded_once env p st st'" and "loaded_once env p st' st''"
  shows "loaded_once env p st st''"
  using assms unfolding loaded_once_def by auto

lemma step_loaded_once:
  assumes "step env st st'"
  shows "loaded_once env p st st'"
  using assms
proof cases
  case (step_getColor lightness)
  then show ?thesis by (simp add: loaded_once_same)
next
  case (step_findProjectNewCommand ctoken)
  then show ?thesis by (simp add: loaded_once_same findProjectNewCommand_state)
next
  case (step_provideHoverOnTex ns doc tex newCommand)
  then show ?thesis
    by (simp add: loaded_once_same provideHoverOnTex_trace provideHoverOnTex_documents split: sum.splits)
next
  case (step_provideHoverOnRef il doc pos refData token ctoken)
  then show ?thesis
    by (simp add: loaded_once_same provideHoverOnRef_state renderSvgOnRef_state loaded_once_refl
        split: option.splits)
next
  case (step_generateSVG il tex newCommandsArg)
  then show ?thesis by (simp add: loaded_once_same generateSVG_state split: option.splits)
next
  case (step_renderCursor doc rng)
  then show ?thesis by (simp add: loaded_once_same renderCursor_state)
next
  case (step_findHoverOnRef refData token)
  then show ?thesis by (simp add: findHoverOnRef_state load_loaded_once)
next
  case (step_renderSvgOnRef il tex refData ctoken)
  then show ?thesis by (simp add: loaded_once_same renderSvgOnRef_state)
qed

lemma steps_loaded_once:
  assumes "steps env st st'"
  shows "loaded_once env p st st'"
  using assms
proof (induction rule: steps.induct)
  case (steps_refl st)
  show ?case by (rule loaded_once_refl)
next
  case (steps_step st st' st'')
  from steps_step.IH step_loaded_once [OF steps_step.hyps(2)]
  show ?case by (rule loaded_once_trans)
qed

lemma findHoverOnRef_result:
  "fst (findHoverOnRef env r tok st) =
     (case fst (TextDocumentLike_load env (file_path r) st) of
        Inr d \<Rightarrow> Inr (finder_findHoverOnRef env d (position r) r tok)
      | Inl e \<Rightarrow> Inl e)"
  by (simp add: findHoverOnRef_def Let_def split: prod.splits sum.splits)

section \<open>Hover on a reference\<close>

text \<open>
  C1. \<^verbatim>\<open>provideHoverOnRef\<close> does not reject, and returns the text hover, in both cases
  of the claim. First, whenever the finder answers no math region for the reference.
  Second, when the finder is the one described by the spec, resolving the target's file
  the way documents are loaded, and the file is not open in the host, not kept, and
  cannot be read: whatever the locator would find. The hover's first content is the
  target's documentation text in a \<^verbatim>\<open>latex\<close> code block, followed by the numbering note
  when there is one and it is enabled, and by the link to the pdf. The state is returned
  as it was, so nothing is submitted for typesetting.
\<close>

theorem provideHoverOnRef_no_region:
  assumes "finder_findHoverOnRef env doc pos refData token = None
         \<or> (finder_findHoverOnRef env =
               texMathEnvFinder_findHoverOnRef (\<lambda>p. fst (TextDocumentLike_load env p st)) findByLabel
             \<and> host_document env (file_path refData) = None
             \<and> documents st (file_path refData) = None
             \<and> readFile env (file_path refData) = None)"
  shows "provideHoverOnRef env il doc pos refData token ctoken st =
           (Inr \<lparr>contents =
                   PlainString (''```latex\<newline>'' @ documentation refData @ ''\<newline>```\<newline>'')
                   # (case prevIndex refData of
                        Some p \<Rightarrow>
                          if hover_ref_number_enabled env
                          then [PlainString (''numbered '' @ refNumber p @ '' at last compilation'')]
                          else []
                      | None \<Rightarrow> [])
                   @ [MarkdownString (''[View on pdf]('' @ synctexLink env (line (position refData)) (file_path refData) @ '')'') True],
                 hover_range = getWordRangeAtPosition env doc pos\<rparr>,
            st)
       \<and> submitted (trace (snd (provideHoverOnRef env il doc pos refData token ctoken st))) = submitted (trace st)"
proof -
  have "finder_findHoverOnRef env doc pos refData token = None"
    using assms
    by (auto simp add: texMathEnvFinder_findHoverOnRef_def load_result)
  then show ?thesis
    by (simp add: provideHoverOnRef_def refNumberMessage_def split: option.splits)
qed

text \<open>
  The label \<^verbatim>\<open>eq:9\<close> is unknown to the finder of the concrete configuration. With the
  finder of the spec and a locator that finds a region in every document, the file
  \<^verbatim>\<open>missing.tex\<close>, which cannot be read, gives the text hover all the same.
\<close>

theorem provideHoverOnRef_no_region_witness:
  "finder_findHoverOnRef demo_env ''doc'' \<lparr>line = 0, character = 5\<rparr> demo_ref ''eq:9'' = None
   \<and> provideHoverOnRef demo_env \<lparr>during_scan = [], during_typeset = []\<rparr> ''doc''
        \<lparr>line = 0, character = 5\<rparr> demo_ref ''eq:9'' False constructor =
        (Inr \<lparr>contents = [PlainString ''```latex\<newline>x\<newline>```\<newline>'', MarkdownString ''[View on pdf](a.tex)'' True],
              hover_range = None\<rparr>, constructor)
   \<and> readFile demo_env ''missing.tex'' = None
   \<and> provideHoverOnRef
        (demo_env\<lparr>finder_findHoverOnRef :=
           texMathEnvFinder_findHoverOnRef (\<lambda>p. fst (TextDocumentLike_load demo_env p constructor))
             (\<lambda>d l. Some demo_tex)\<rparr>)
        \<lparr>during_scan = [], during_typeset = []\<rparr> ''doc'' \<lparr>line = 0, character = 5\<rparr>
        (demo_ref\<lparr>file_path := ''missing.tex''\<rparr>) ''eq:1'' False constructor =
        (Inr \<lparr>contents = [PlainString ''```latex\<newline>x\<newline>```\<newline>'', MarkdownString ''[View on pdf](missing.tex)'' True],
              hover_range = None\<rparr>, constructor)"
proof -
  let ?env = "demo_env\<lparr>finder_findHoverOnRef :=
                texMathEnvFinder_findHoverOnRef (\<lambda>p. fst (TextDocumentLike_load demo_env p constructor))
                  (\<lambda>d l. Some demo_tex)\<rparr>"
  have same: "(\<lambda>p. fst (TextDocumentLike_load ?env p constructor)) =
              (\<lambda>p. fst (TextDocumentLike_load demo_env p constructor))"
    by (rule ext) (simp add: load_result split: option.splits)
  have unreadable:
    "finder_findHoverOnRef ?env =
       texMathEnvFinder_findHoverOnRef (\<lambda>p. fst (TextDocumentLike_load ?env p constructor)) (\<lambda>d l. Some demo_tex)
     \<and> host_document ?env (file_path (demo_ref\<lparr>file_path := ''missing.tex''\<rparr>)) = None
     \<and> documents constructor (file_path (demo_ref\<lparr>file_path := ''missing.tex''\<rparr>)) = None
     \<and> readFile ?env (file_path (demo_ref\<lparr>file_path := ''missing.tex''\<rparr>)) = None"
    by (simp add: same) (simp add: demo_env_def constructor_def)
  have none: "finder_findHoverOnRef demo_env ''doc'' \<lparr>line = 0, character = 5\<rparr> demo_ref ''eq:9'' = None"
    by (simp add: demo_env_def)
  from provideHoverOnRef_no_region [of demo_env "''doc''" "\<lparr>line = 0, character = 5\<rparr>" demo_ref "''eq:9''"
      constructor "\<lambda>d l. None" "\<lparr>during_scan = [], during_typeset = []\<rparr>" False, OF disjI1 [OF none]]
    provideHoverOnRef_no_region [of ?env "''doc''" "\<lparr>line = 0, character = 5\<rparr>"
      "demo_ref\<lparr>file_path := ''missing.tex''\<rparr>" "''eq:1''" constructor "\<lambda>d l. Some demo_tex"
      "\<lparr>during_scan = [], during_typeset = []\<rparr>" False, OF disjI2 [OF unreadable]]
  show ?thesis
    by (simp add: demo_env_def demo_ref_def)
qed

section \<open>Hover on math\<close>

text \<open>
  C2. When the typesetting engine rejects the source that \<^verbatim>\<open>provideHoverOnTex\<close> submits,
  the method rejects with the same error, after the error and the message
  "Error when MathJax is rendering ..." were logged; no hover is returned.
\<close>

theorem provideHoverOnTex_rethrows:
  assumes "mj_typeset env
             (newCommand @ stripTeX env (mathjaxify env (cursorRenderer_renderCursor env doc (tex_range tex) (color st)) (envname tex)))
             \<lparr>opts_scale = hover_preview_scale env, opts_color = color st\<rparr> = Inl e"
  shows "fst (provideHoverOnTex env ns doc tex newCommand st) = Inl e
       \<and> trace (snd (provideHoverOnTex env ns doc tex newCommand st)) =
           trace st @
           [RenderCursor doc (tex_range tex) (color st),
            Typeset (newCommand @ stripTeX env (mathjaxify env (cursorRenderer_renderCursor env doc (tex_range tex) (color st)) (envname tex)))
              \<lparr>opts_scale = hover_preview_scale env, opts_color = color st\<rparr>,
            LogOnRejected e,
            AddLogMessage (''Error when MathJax is rendering '' @ newCommand @ stripTeX env (mathjaxify env (cursorRenderer_renderCursor env doc (tex_range tex) (color st)) (envname tex)))]"
  using assms by (simp add: provideHoverOnTex_def Let_def)

text \<open>A source that starts with a question mark is rejected by the concrete engine.\<close>

theorem provideHoverOnTex_rethrows_witness:
  "mj_typeset demo_env
     (''?'' @ stripTeX demo_env (mathjaxify demo_env (cursorRenderer_renderCursor demo_env ''x'' (tex_range demo_tex) (color constructor)) (envname demo_tex)))
     \<lparr>opts_scale = hover_preview_scale demo_env, opts_color = color constructor\<rparr> = Inl (RenderError ''?'')
   \<and> fst (provideHoverOnTex demo_env [] ''x'' demo_tex ''?'' constructor) = Inl (RenderError ''?'')
   \<and> trace (snd (provideHoverOnTex demo_env [] ''x'' demo_tex ''?'' constructor)) =
       [RenderCursor ''x'' (\<lparr>line = 0, character = 0\<rparr>, \<lparr>line = 0, character = 1\<rparr>) ''#000000'',
        Typeset ''?x|#000000'' \<lparr>opts_scale = 1, opts_color = ''#000000''\<rparr>,
        LogOnRejected (RenderError ''?''),
        AddLogMessage ''Error when MathJax is rendering ?x|#000000'']"
  using provideHoverOnTex_rethrows [of demo_env "''?''" "''x''" demo_tex constructor "RenderError ''?''" "[]"]
  by (simp add: demo_env_def demo_tex_def constructor_def)

section \<open>The colour\<close>

text \<open>
  C3. After \<^verbatim>\<open>getColor\<close> the colour is the dark foreground \<^verbatim>\<open>#000000\<close> when the theme
  lightness is \<^verbatim>\<open>light\<close>, and the light foreground \<^verbatim>\<open>#ffffff\<close> for any other
  lightness.
\<close>

theorem getColor_two_valued:
  "color (getColor lightness st) = (if lightness = ''light'' then ''#000000'' else ''#ffffff'')"
  by (simp add: getColor_def)

text \<open>
  C4. The request that \<^verbatim>\<open>provideHoverOnTex\<close> submits carries the colour the field had
  when the method was called, whatever notifications \<^verbatim>\<open>ns\<close> arrive while the engine is
  awaited; those notifications decide the colour of the state afterwards, and a request
  submitted from that state carries the new colour.
\<close>

theorem provideHoverOnTex_color_at_submission:
  "submitted (trace (snd (provideHoverOnTex env ns doc tex newCommand st))) =
     submitted (trace st) @
     [(newCommand @ stripTeX env (mathjaxify env (cursorRenderer_renderCursor env doc (tex_range tex) (color st)) (envname tex)),
       \<lparr>opts_scale = hover_preview_scale env, opts_color = color st\<rparr>)]
   \<and> color (snd (provideHoverOnTex env ns doc tex newCommand st)) = color (awaiting ns st)
   \<and> map (\<lambda>r. opts_color (snd r))
        (submitted (trace (snd (provideHoverOnTex env ns' doc' tex' newCommand'
                                  (snd (provideHoverOnTex env ns doc tex newCommand st)))))) =
       map (\<lambda>r. opts_color (snd r)) (submitted (trace st)) @ [color st, color (awaiting ns st)]"
  by (simp add: provideHoverOnTex_trace provideHoverOnTex_color split: sum.splits)

text \<open>
  Light theme, one request during which the theme becomes dark, then a second request:
  the first is typeset in \<^verbatim>\<open>#000000\<close>, the second in \<^verbatim>\<open>#ffffff\<close>.
\<close>

theorem provideHoverOnTex_color_at_submission_witness:
  "submitted (trace (snd (provideHoverOnTex demo_env [''dark''] ''x'' demo_tex ''P'' (getColor ''light'' constructor)))) =
     [(''Px|#000000'', \<lparr>opts_scale = 1, opts_color = ''#000000''\<rparr>)]
   \<and> color (snd (provideHoverOnTex demo_env [''dark''] ''x'' demo_tex ''P'' (getColor ''light'' constructor))) = ''#ffffff''
   \<and> map (\<lambda>r. opts_color (snd r))
        (submitted (trace (snd (provideHoverOnTex demo_env [] ''y'' demo_tex ''P''
                                  (snd (provideHoverOnTex demo_env [''dark''] ''x'' demo_tex ''P'' (getColor ''light'' constructor))))))) =
       [''#000000'', ''#ffffff'']"
  using provideHoverOnTex_color_at_submission [of demo_env "[''dark'']" "''x''" demo_tex "''P''"
      "getColor ''light'' constructor" "[]" "''y''" demo_tex "''P''"]
  by (simp add: demo_env_def demo_tex_def constructor_def getColor_def color_awaiting)

section \<open>Rendering without a cursor\<close>

text \<open>
  C5. With a macro override, \<^verbatim>\<open>generateSVG\<close> scans no project: the number of scans in
  the trace is unchanged, the source submitted is the override followed by the stripped
  math source, and the result, when the engine accepts the source, carries the override
  as \<^verbatim>\<open>newCommands\<close> (the empty override included). Without an override there is one
  scan.
\<close>

theorem generateSVG_override:
  "generateSVG env il tex (Some nc) st =
     (case mj_typeset env (nc @ stripTeX env (mathjaxify env (texString tex) (envname tex)))
             \<lparr>opts_scale = hover_preview_scale env, opts_color = color st\<rparr> of
        Inr xml \<Rightarrow> Inr \<lparr>svgDataUrl = svgToDataUrl env xml, newCommands = nc\<rparr>
      | Inl e \<Rightarrow> Inl e,
      awaiting (during_typeset il)
        (emit (Typeset (nc @ stripTeX env (mathjaxify env (texString tex) (envname tex)))
                 \<lparr>opts_scale = hover_preview_scale env, opts_color = color st\<rparr>) st))
   \<and> scans (trace (snd (generateSVG env il tex (Some nc) st))) = scans (trace st)
   \<and> map fst (submitted (trace (snd (generateSVG env il tex (Some nc) st)))) =
       map fst (submitted (trace st)) @ [nc @ stripTeX env (mathjaxify env (texString tex) (envname tex))]
   \<and> scans (trace (snd (generateSVG env il tex None st))) = Suc (scans (trace st))"
  by (simp add: generateSVG_def Let_def split: sum.splits)

text \<open>The empty override is used as it is; without an override the project is scanned once.\<close>

theorem generateSVG_override_witness:
  "generateSVG demo_env \<lparr>during_scan = [], during_typeset = []\<rparr> demo_tex (Some []) constructor =
     (Inr \<lparr>svgDataUrl = ''<svg>x'', newCommands = []\<rparr>,
      \<lparr>color = ''#000000'', trace = [Typeset ''x'' \<lparr>opts_scale = 1, opts_color = ''#000000''\<rparr>], documents = Map.empty\<rparr>)
   \<and> scans (trace (snd (generateSVG demo_env \<lparr>during_scan = [], during_typeset = []\<rparr> demo_tex None constructor))) = 1"
  using generateSVG_override [of demo_env "\<lparr>during_scan = [], during_typeset = []\<rparr>" demo_tex "[]" constructor]
  by (simp add: demo_env_def demo_tex_def constructor_def emit_def)

text \<open>
  C6. \<^verbatim>\<open>generateSVG\<close>, \<^verbatim>\<open>renderSvgOnRef\<close> and \<^verbatim>\<open>provideHoverOnRef\<close> never call the
  cursor renderer, and the source that \<^verbatim>\<open>generateSVG\<close> and \<^verbatim>\<open>renderSvgOnRef\<close> submit
  for typesetting is the macro preamble followed by the prepared and stripped raw text
  \<^verbatim>\<open>tex.texString\<close>. \<^verbatim>\<open>provideHoverOnTex\<close> calls the cursor renderer once and submits
  the text it returns.
\<close>

theorem reference_path_skips_cursor:
  "cursor_calls (trace (snd (generateSVG env il tex arg st))) = cursor_calls (trace st)
   \<and> cursor_calls (trace (snd (renderSvgOnRef env il tex refData ctoken st))) = cursor_calls (trace st)
   \<and> cursor_calls (trace (snd (provideHoverOnRef env il doc pos refData token ctoken st))) = cursor_calls (trace st)
   \<and> map fst (submitted (trace (snd (generateSVG env il tex arg st)))) =
       map fst (submitted (trace st)) @
       [(case arg of Some nc \<Rightarrow> nc | None \<Rightarrow> newCommandFinder_findProjectNewCommand env None)
        @ stripTeX env (mathjaxify env (texString tex) (envname tex))]
   \<and> map fst (submitted (trace (snd (renderSvgOnRef env il tex refData ctoken st)))) =
       map fst (submitted (trace st)) @
       [newCommandFinder_findProjectNewCommand env (Some ctoken)
        @ stripTeX env (mathjaxify env (texString tex) (envname tex))]
   \<and> cursor_calls (trace (snd (provideHoverOnTex env ns doc tex newCommand st))) = Suc (cursor_calls (trace st))
   \<and> map fst (submitted (trace (snd (provideHoverOnTex env ns doc tex newCommand st)))) =
       map fst (submitted (trace st)) @
       [newCommand @ stripTeX env (mathjaxify env (cursorRenderer_renderCursor env doc (tex_range tex) (color st)) (envname tex))]"
  by (simp add: generateSVG_state renderSvgOnRef_state provideHoverOnRef_state provideHoverOnTex_trace
      split: option.splits sum.splits)

section \<open>The numbering note\<close>

text \<open>
  C7, as stated, fails: a target with a previous compile number, the setting
  \<^verbatim>\<open>hover.ref.number.enabled\<close> off, no region found. The message is defined, and the
  hover holds the documentation and the link only.
\<close>

theorem numbering_note_counterexample:
  "prevIndex demo_ref = Some \<lparr>refNumber = ''2'', pageNumber = 1\<rparr>
   \<and> refNumberMessage demo_ref = Some ''numbered 2 at last compilation''
   \<and> fst (provideHoverOnRef demo_env \<lparr>during_scan = [], during_typeset = []\<rparr> ''doc''
            \<lparr>line = 0, character = 5\<rparr> demo_ref ''eq:9'' False constructor) =
       Inr \<lparr>contents = [PlainString ''```latex\<newline>x\<newline>```\<newline>'', MarkdownString ''[View on pdf](a.tex)'' True],
            hover_range = None\<rparr>
   \<and> PlainString ''numbered 2 at last compilation'' \<notin>
       set [PlainString ''```latex\<newline>x\<newline>```\<newline>'', MarkdownString ''[View on pdf](a.tex)'' True]"
  by (simp add: provideHoverOnRef_def refNumberMessage_def demo_env_def demo_ref_def)

text \<open>
  C7, amended. \<^verbatim>\<open>refNumberMessage\<close> is undefined exactly when \<^verbatim>\<open>prevIndex\<close> is absent,
  and is "numbered N at last compilation" otherwise. In the text hover that
  \<^verbatim>\<open>provideHoverOnRef\<close> builds itself (the reference preview is disabled, or no region is
  found) the note stands between the documentation and the link exactly when
  \<^verbatim>\<open>prevIndex\<close> is present and \<^verbatim>\<open>hover.ref.number.enabled\<close> is on.
\<close>

theorem numbering_note_gated:
  assumes "hover_ref_enabled env \<longrightarrow> finder_findHoverOnRef env doc pos refData token = None"
  shows "(refNumberMessage refData = None \<longleftrightarrow> prevIndex refData = None)
       \<and> refNumberMessage refData =
           map_option (\<lambda>p. ''numbered '' @ refNumber p @ '' at last compilation'') (prevIndex refData)
       \<and> map_sum id contents (fst (provideHoverOnRef env il doc pos refData token ctoken st)) =
           Inr (PlainString (''```latex\<newline>'' @ documentation refData @ ''\<newline>```\<newline>'')
                # (case prevIndex refData of
                     Some p \<Rightarrow>
                       if hover_ref_number_enabled env
                       then [PlainString (''numbered '' @ refNumber p @ '' at last compilation'')]
                       else []
                   | None \<Rightarrow> [])
                @ [MarkdownString (''[View on pdf]('' @ synctexLink env (line (position refData)) (file_path refData) @ '')'') True])"
  using assms by (auto simp add: provideHoverOnRef_def refNumberMessage_def split: option.splits)

text \<open>With the setting on, the note of the concrete target is in the hover.\<close>

theorem numbering_note_gated_witness:
  "(hover_ref_enabled (demo_env\<lparr>hover_ref_number_enabled := True\<rparr>) \<and>
    finder_findHoverOnRef (demo_env\<lparr>hover_ref_number_enabled := True\<rparr>) ''doc'' \<lparr>line = 0, character = 5\<rparr> demo_ref ''eq:9'' = None)
   \<and> map_sum id contents
        (fst (provideHoverOnRef (demo_env\<lparr>hover_ref_number_enabled := True\<rparr>) \<lparr>during_scan = [], during_typeset = []\<rparr>
                ''doc'' \<lparr>line = 0, character = 5\<rparr> demo_ref ''eq:9'' False constructor)) =
       Inr [PlainString ''```latex\<newline>x\<newline>```\<newline>'', PlainString ''numbered 2 at last compilation'',
            MarkdownString ''[View on pdf](a.tex)'' True]"
  using numbering_note_gated [of "demo_env\<lparr>hover_ref_number_enabled := True\<rparr>" "''doc''"
      "\<lparr>line = 0, character = 5\<rparr>" demo_ref "''eq:9''" "\<lparr>during_scan = [], during_typeset = []\<rparr>" False constructor]
  by (simp add: demo_env_def demo_ref_def)

section \<open>Loading the document of a reference\<close>

text \<open>
  C8. Two calls of \<^verbatim>\<open>findHoverOnRef\<close> for the same file, the files on disk changing to
  any contents \<^verbatim>\<open>rf\<close> after the first call, with any run of operations between the two.
  At most one projected document is built for the file over the whole run. When the
  first call resolved a document, the second call builds none and hands the finder that
  same document, whatever the file holds by then. When the file itself is unchanged, the
  second call resolves what the first did, a failure included, and builds nothing.
\<close>

theorem findHoverOnRef_loads_once:
  assumes "file_path r2 = file_path r1"
    and "steps (env\<lparr>readFile := rf\<rparr>) (snd (findHoverOnRef env r1 tok1 st)) st2"
  shows "loads (file_path r1) (trace (snd (findHoverOnRef (env\<lparr>readFile := rf\<rparr>) r2 tok2 st2)))
           \<le> Suc (loads (file_path r1) (trace st))
       \<and> (fst (TextDocumentLike_load env (file_path r1) st) = Inr d \<longrightarrow>
            fst (TextDocumentLike_load (env\<lparr>readFile := rf\<rparr>) (file_path r2) st2) = Inr d
            \<and> fst (findHoverOnRef (env\<lparr>readFile := rf\<rparr>) r2 tok2 st2) =
                Inr (finder_findHoverOnRef env d (position r2) r2 tok2)
            \<and> loads (file_path r1) (trace (snd (findHoverOnRef (env\<lparr>readFile := rf\<rparr>) r2 tok2 st2))) =
                loads (file_path r1) (trace (snd (findHoverOnRef env r1 tok1 st))))
       \<and> (rf (file_path r1) = readFile env (file_path r1) \<longrightarrow>
            fst (TextDocumentLike_load (env\<lparr>readFile := rf\<rparr>) (file_path r2) st2) =
              fst (TextDocumentLike_load env (file_path r1) st)
            \<and> loads (file_path r1) (trace (snd (findHoverOnRef (env\<lparr>readFile := rf\<rparr>) r2 tok2 st2))) =
                loads (file_path r1) (trace (snd (findHoverOnRef env r1 tok1 st))))"
proof -
  let ?p = "file_path r1"
  let ?env = "env\<lparr>readFile := rf\<rparr>"
  let ?st1 = "snd (findHoverOnRef env r1 tok1 st)"
  let ?st3 = "snd (findHoverOnRef ?env r2 tok2 st2)"
  have st1: "?st1 = snd (TextDocumentLike_load env ?p st)"
    by (simp add: findHoverOnRef_state)
  have st3: "?st3 = snd (TextDocumentLike_load ?env ?p st2)"
    by (simp add: findHoverOnRef_state assms(1))
  have first: "loaded_once env ?p st ?st1"
    by (simp add: st1 load_loaded_once)
  have mid: "loaded_once ?env ?p ?st1 st2"
    by (rule steps_loaded_once [OF assms(2)])
  have last: "loaded_once ?env ?p st2 ?st3"
    by (simp add: st3 load_loaded_once)
  have rest: "loaded_once ?env ?p ?st1 ?st3"
    by (rule loaded_once_trans [OF mid last])
  have count: "loads ?p (trace ?st3) \<le> Suc (loads ?p (trace st))"
    using first rest unfolding loaded_once_def by auto
  have kept: "fst (TextDocumentLike_load ?env (file_path r2) st2) = Inr d
      \<and> fst (findHoverOnRef ?env r2 tok2 st2) = Inr (finder_findHoverOnRef env d (position r2) r2 tok2)
      \<and> loads ?p (trace ?st3) = loads ?p (trace ?st1)"
    if d: "fst (TextDocumentLike_load env ?p st) = Inr d"
  proof -
    from d have pinned: "host_document env ?p = Some d
        \<or> (host_document env ?p = None \<and> documents ?st1 ?p = Some d)"
      by (auto simp add: st1 load_result load_documents split: option.splits)
    with mid have same: "documents st2 ?p = documents ?st1 ?p"
      and l2: "loads ?p (trace st2) = loads ?p (trace ?st1)"
      unfolding loaded_once_def by auto
    from pinned same have r: "fst (TextDocumentLike_load ?env ?p st2) = Inr d"
      by (auto simp add: load_result)
    from pinned same have l3: "loads ?p (trace ?st3) = loads ?p (trace st2)"
      by (auto simp add: st3 load_loads)
    from r l2 l3 show ?thesis
      by (simp add: findHoverOnRef_result assms(1))
  qed
  have unchanged: "fst (TextDocumentLike_load ?env (file_path r2) st2) = fst (TextDocumentLike_load env ?p st)
      \<and> loads ?p (trace ?st3) = loads ?p (trace ?st1)"
    if rf: "rf ?p = readFile env ?p"
  proof (cases "fst (TextDocumentLike_load env ?p st)")
    case (Inr d')
    have pinned: "host_document env ?p = Some d'
        \<or> (host_document env ?p = None \<and> documents ?st1 ?p = Some d')"
      using Inr by (auto simp add: st1 load_result load_documents split: option.splits)
    with mid have same: "documents st2 ?p = documents ?st1 ?p"
      and l2: "loads ?p (trace st2) = loads ?p (trace ?st1)"
      unfolding loaded_once_def by auto
    from pinned same have r: "fst (TextDocumentLike_load ?env ?p st2) = Inr d'"
      by (auto simp add: load_result)
    from pinned same have l3: "loads ?p (trace ?st3) = loads ?p (trace st2)"
      by (auto simp add: st3 load_loads)
    from r l2 l3 Inr show ?thesis
      by (simp add: assms(1))
  next
    case (Inl e)
    then have failed: "host_document env ?p = None \<and> documents st ?p = None \<and> readFile env ?p = None"
      and e: "e = ResourceUnavailable ?p"
      by (auto simp add: load_result split: option.splits)
    then have s1: "documents ?st1 ?p = None" and l1: "loads ?p (trace ?st1) = loads ?p (trace st)"
      by (simp_all add: st1 load_documents load_loads)
    from mid failed rf s1 have same: "documents st2 ?p = None"
      and l2: "loads ?p (trace st2) = loads ?p (trace ?st1)"
      unfolding loaded_once_def by auto
    from failed rf same have r: "fst (TextDocumentLike_load ?env ?p st2) = Inl (ResourceUnavailable ?p)"
      by (simp add: load_result)
    from failed rf same have l3: "loads ?p (trace ?st3) = loads ?p (trace st2)"
      by (simp add: st3 load_loads)
    from r l2 l3 Inl e show ?thesis
      by (simp add: assms(1))
  qed
  from count kept unchanged show ?thesis
    by blast
qed

text \<open>
  The file \<^verbatim>\<open>a.tex\<close> holds \<^verbatim>\<open>x\<close> at the first call, which loads it; then it is
  rewritten to \<^verbatim>\<open>y\<close> and the theme changes. The second call loads nothing and searches
  \<^verbatim>\<open>x\<close>.
\<close>

theorem findHoverOnRef_loads_once_witness:
  "file_path demo_ref = file_path demo_ref
   \<and> steps (demo_env\<lparr>readFile := (\<lambda>p. Some ''y'')\<rparr>)
        (snd (findHoverOnRef demo_env demo_ref ''eq:1'' constructor))
        (getColor ''dark'' (snd (findHoverOnRef demo_env demo_ref ''eq:1'' constructor)))
   \<and> fst (TextDocumentLike_load demo_env (file_path demo_ref) constructor) = Inr ''x''
   \<and> loads ''a.tex'' (trace (snd (findHoverOnRef (demo_env\<lparr>readFile := (\<lambda>p. Some ''y'')\<rparr>) demo_ref ''eq:1''
        (getColor ''dark'' (snd (findHoverOnRef demo_env demo_ref ''eq:1'' constructor)))))) = 1
   \<and> fst (findHoverOnRef (demo_env\<lparr>readFile := (\<lambda>p. Some ''y'')\<rparr>) demo_ref ''eq:1''
        (getColor ''dark'' (snd (findHoverOnRef demo_env demo_ref ''eq:1'' constructor)))) =
       Inr (Some \<lparr>texString = ''x'', tex_range = (\<lparr>line = 3, character = 0\<rparr>, \<lparr>line = 3, character = 0\<rparr>), envname = ''equation''\<rparr>)"
proof -
  let ?env = "demo_env\<lparr>readFile := (\<lambda>p. Some ''y'')\<rparr>"
  let ?st1 = "snd (findHoverOnRef demo_env demo_ref ''eq:1'' constructor)"
  have s: "steps ?env ?st1 (getColor ''dark'' ?st1)"
    by (rule steps_step [OF steps_refl step_getColor])
  have l: "loads ''a.tex'' (trace ?st1) = 1"
    by (simp add: findHoverOnRef_state load_state demo_env_def demo_ref_def constructor_def)
  have p: "file_path demo_ref = ''a.tex''"
    by (simp add: demo_ref_def)
  have d: "fst (TextDocumentLike_load demo_env ''a.tex'' constructor) = Inr ''x''"
    by (simp add: load_result demo_env_def constructor_def)
  from findHoverOnRef_loads_once [where ?r1.0 = demo_ref and ?r2.0 = demo_ref and env = demo_env
      and rf = "\<lambda>p. Some ''y''" and ?tok1.0 = "''eq:1''" and st = constructor
      and ?st2.0 = "getColor ''dark'' ?st1" and ?tok2.0 = "''eq:1''" and d = "''x''", OF refl s]
  show ?thesis
    using s l by (simp add: p d) (simp add: demo_env_def demo_ref_def)
qed

section \<open>Who writes the colour\<close>

text \<open>
  C9. No method other than \<^verbatim>\<open>getColor\<close>, the body of the registered notification
  handler, assigns the colour: after a method the colour is what the handler runs
  delivered during its suspensions (\<^verbatim>\<open>awaiting\<close>) made of it, and the colour it had
  before when there were none. Every read hands on the value the field has at that
  moment: at the call for \<^verbatim>\<open>renderCursor\<close> and \<^verbatim>\<open>provideHoverOnTex\<close>, after the macro
  scan for \<^verbatim>\<open>generateSVG\<close> without override, \<^verbatim>\<open>renderSvgOnRef\<close> and
  \<^verbatim>\<open>provideHoverOnRef\<close>.
\<close>

theorem color_written_by_handler_only:
  "color (snd (findProjectNewCommand env ctoken st)) = color st
   \<and> color (snd (renderCursor env doc rng st)) = color st
   \<and> color (snd (findHoverOnRef env refData token st)) = color st
   \<and> color (snd (provideHoverOnTex env ns doc tex newCommand st)) = color (awaiting ns st)
   \<and> color (snd (generateSVG env il tex arg st)) =
       color (awaiting ((case arg of Some nc \<Rightarrow> [] | None \<Rightarrow> during_scan il) @ during_typeset il) st)
   \<and> color (snd (renderSvgOnRef env il tex refData ctoken st)) =
       color (awaiting (during_scan il @ during_typeset il) st)
   \<and> color (snd (provideHoverOnRef env il doc pos refData token ctoken st)) =
       (case (if hover_ref_enabled env then finder_findHoverOnRef env doc pos refData token else None) of
          Some t \<Rightarrow> color (awaiting (during_scan il @ during_typeset il) st)
        | None \<Rightarrow> color st)
   \<and> fst (renderCursor env doc rng st) = cursorRenderer_renderCursor env doc rng (color st)
   \<and> colors_read (trace (snd (renderCursor env doc rng st))) = colors_read (trace st) @ [color st]
   \<and> colors_read (trace (snd (provideHoverOnTex env ns doc tex newCommand st))) =
       colors_read (trace st) @ [color st, color st]
   \<and> colors_read (trace (snd (generateSVG env il tex arg st))) =
       colors_read (trace st) @
       [color (case arg of Some nc \<Rightarrow> st | None \<Rightarrow> awaiting (during_scan il) st)]
   \<and> colors_read (trace (snd (renderSvgOnRef env il tex refData ctoken st))) =
       colors_read (trace st) @ [color (awaiting (during_scan il) st)]
   \<and> colors_read (trace (snd (provideHoverOnRef env il doc pos refData token ctoken st))) =
       colors_read (trace st) @
       (case (if hover_ref_enabled env then finder_findHoverOnRef env doc pos refData token else None) of
          Some t \<Rightarrow> [color (awaiting (during_scan il) st)]
        | None \<Rightarrow> [])"
proof (intro conjI)
  show "color (snd (findProjectNewCommand env ctoken st)) = color st"
    by (simp add: findProjectNewCommand_state)
  show "color (snd (renderCursor env doc rng st)) = color st"
    by (simp add: renderCursor_state)
  show "fst (renderCursor env doc rng st) = cursorRenderer_renderCursor env doc rng (color st)"
    by (simp add: renderCursor_def)
  show "colors_read (trace (snd (renderCursor env doc rng st))) = colors_read (trace st) @ [color st]"
    by (simp add: renderCursor_state)
qed (rule color_findHoverOnRef provideHoverOnTex_color color_generateSVG color_renderSvgOnRef
      color_provideHoverOnRef colors_read_provideHoverOnTex colors_read_generateSVG
      colors_read_renderSvgOnRef colors_read_provideHoverOnRef)+

text \<open>
  A scan during which the theme becomes dark, then a typesetting during which it
  becomes light and dark again; and the same call with no notification at all.
\<close>

theorem color_written_by_handler_only_witness:
  "color (snd (generateSVG demo_env \<lparr>during_scan = [''dark''], during_typeset = [''light'', ''dark'']\<rparr> demo_tex None constructor)) = ''#ffffff''
   \<and> colors_read (trace (snd (generateSVG demo_env \<lparr>during_scan = [''dark''], during_typeset = [''light'', ''dark'']\<rparr> demo_tex None constructor))) = [''#ffffff'']
   \<and> color (snd (generateSVG demo_env \<lparr>during_scan = [], during_typeset = []\<rparr> demo_tex None constructor)) = ''#000000''"
  using color_written_by_handler_only [of demo_env False constructor "''x''" "tex_range demo_tex" demo_ref "''eq:9''" "[]" demo_tex "''P''"
      "\<lparr>during_scan = [''dark''], during_typeset = [''light'', ''dark'']\<rparr>" None "\<lparr>line = 0, character = 0\<rparr>"]
    color_written_by_handler_only [of demo_env False constructor "''x''" "tex_range demo_tex" demo_ref "''eq:9''" "[]" demo_tex "''P''"
      "\<lparr>during_scan = [], during_typeset = []\<rparr>" None "\<lparr>line = 0, character = 0\<rparr>"]
  by (simp add: constructor_def color_awaiting)

text \<open>
  C10. The colour is \<^verbatim>\<open>#000000\<close> in the initial state, it is \<^verbatim>\<open>#000000\<close> or
  \<^verbatim>\<open>#ffffff\<close> in every reachable state, and every step keeps it one of the two.
\<close>

theorem color_invariant:
  "color constructor = ''#000000''
   \<and> (reachable env st \<longrightarrow> color st = ''#000000'' \<or> color st = ''#ffffff'')
   \<and> (color st = ''#000000'' \<or> color st = ''#ffffff'' \<longrightarrow> step env st st' \<longrightarrow>
        color st' = ''#000000'' \<or> color st' = ''#ffffff'')"
proof (intro conjI impI)
  show "color constructor = ''#000000''"
    by (simp add: constructor_def)
next
  assume "reachable env st"
  then have "steps env constructor st"
    by (simp add: reachable_def)
  moreover have "color constructor = ''#000000'' \<or> color constructor = ''#ffffff''"
    by (simp add: constructor_def)
  ultimately show "color st = ''#000000'' \<or> color st = ''#ffffff''"
    by (rule steps_color)
next
  assume "color st = ''#000000'' \<or> color st = ''#ffffff''" and "step env st st'"
  with step_color [of env st st'] show "color st' = ''#000000'' \<or> color st' = ''#ffffff''"
    by auto
qed

text \<open>After one call of \<^verbatim>\<open>renderCursor\<close> and a change to a dark theme.\<close>

theorem color_invariant_witness:
  "reachable demo_env (snd (renderCursor demo_env ''x'' (tex_range demo_tex) constructor))
   \<and> step demo_env (snd (renderCursor demo_env ''x'' (tex_range demo_tex) constructor))
        (getColor ''dark'' (snd (renderCursor demo_env ''x'' (tex_range demo_tex) constructor)))
   \<and> color (snd (renderCursor demo_env ''x'' (tex_range demo_tex) constructor)) = ''#000000''
   \<and> color (getColor ''dark'' (snd (renderCursor demo_env ''x'' (tex_range demo_tex) constructor))) = ''#ffffff''"
proof -
  let ?s = "snd (renderCursor demo_env ''x'' (tex_range demo_tex) constructor)"
  have r: "reachable demo_env ?s"
    unfolding reachable_def by (rule steps_step [OF steps_refl step_renderCursor])
  have s: "step demo_env ?s (getColor ''dark'' ?s)"
    by (rule step_getColor)
  from color_invariant [of demo_env ?s "getColor ''dark'' ?s"] r s
  show ?thesis
    by (simp add: renderCursor_state constructor_def getColor_def)
qed

end
